theory Spec2Isabelle
  imports Main
begin

section \<open>XPath selectors (scrapy/xpath/selector.py)\<close>

text \<open>
  The module wraps nodes of a libxml2 document in \<open>XPathSelector\<close> objects and lists of
  them in \<open>XPathSelectorList\<close>. libxml2, the document factories, the response classes and
  the helpers of \<open>scrapy.utils\<close> are imported by the module and are not part of it: what
  they compute is taken as a parameter (the record \<open>externals\<close>). Python objects that the
  module mutates (the XPath context of a document, the cache a response keeps) live in an
  explicit \<open>world\<close> that every stateful method takes and returns; an exception is the
  \<open>Inl\<close> of a sum.
\<close>

subsection \<open>Python values\<close>

text \<open>A Python 2 \<open>str\<close> is a byte string; a \<open>unicode\<close> is a list of code points.\<close>

type_synonym bytes = string
type_synonym unicode = "nat list"

text \<open>A float is opaque here: the module only ever converts one to text.\<close>

datatype pyfloat = Finite int int | Infinite bool | NaN

text \<open>
  The libxml2 wrapper objects, by class and by the address of the wrapped node: an
  \<open>xmlDoc\<close>, an \<open>xmlAttr\<close>, or any other \<open>xmlNode\<close> (element, text, comment, ...).
\<close>

datatype xmlobj = XmlDoc nat | XmlAttr nat | XmlNode nat

text \<open>What the attribute \<open>xmlNode\<close> of a selector can hold.\<close>

datatype pyval =
    Node xmlobj
  | PyStr bytes
  | PyUnicode unicode
  | PyFloat pyfloat
  | PyInt int
  | PyNone

text \<open>
  What \<open>xpathContext.xpathEval\<close> returns: a Python list of nodes for a node-set, a
  \<open>str\<close>, a \<open>float\<close> or an \<open>int\<close> for a string, a number or a boolean.
\<close>

datatype scalar = XString bytes | XNumber pyfloat | XBoolean int

datatype xpath_result = NodeList "xmlobj list" | Scalar scalar

fun scalar_value :: "scalar \<Rightarrow> pyval" where
  "scalar_value (XString b) = PyStr b"
| "scalar_value (XNumber f) = PyFloat f"
| "scalar_value (XBoolean i) = PyInt i"

text \<open>The argument \<open>text\<close> of the constructor: a \<open>str\<close> or a \<open>unicode\<close>.\<close>

datatype pytext = Str bytes | Unicode unicode

datatype pyerror =
    ValueError bytes
  | AttributeError
  | TypeError
  | TreeError
  | ParseError

text \<open>The two document factories, \<open>xmlDoc_from_html\<close> and \<open>xmlDoc_from_xml\<close>.\<close>

datatype mode = HtmlMode | XmlMode

text \<open>
  A response: its identity, its body, and whether it has the method \<open>getlibxml2doc\<close>
  (an extension adds it; \<open>__init__\<close> probes for it by catching \<open>AttributeError\<close>).
\<close>

record source =
  sid :: nat
  body :: bytes
  has_getlibxml2doc :: bool

text \<open>
  A \<open>Libxml2Document\<close>: its identity and the parsed \<open>xmlDoc\<close>. The state of its
  \<open>xpathContext\<close> is in the world, under the document's identity.
\<close>

record Libxml2Document =
  hid :: nat
  xmlDoc :: xmlobj

subsection \<open>The external collaborators\<close>

record externals =
  xpathEval :: "xmlobj \<Rightarrow> xmlobj option \<Rightarrow> (bytes \<times> bytes) list \<Rightarrow> bytes \<Rightarrow> xpath_result option"
  serialize :: "xmlobj \<Rightarrow> bytes option"
  content :: "xmlobj \<Rightarrow> bytes"
  getContent :: "xmlobj \<Rightarrow> bytes"
  getRootElement :: "xmlobj \<Rightarrow> xmlobj option"
  xmlDoc_factory :: "mode \<Rightarrow> source \<Rightarrow> xmlobj option"
  decode_ignore :: "bytes \<Rightarrow> unicode"
  unicode1 :: "pyval \<Rightarrow> unicode"
  unicode_to_str :: "pytext option \<Rightarrow> bytes"
  textresponse_getlibxml2doc :: bool

text \<open>
  \<^item> \<open>xpathEval doc node namespaces expr\<close>: the evaluation of \<open>expr\<close> by the XPath context
    of \<open>doc\<close>, with its current node and its registered namespaces; \<open>None\<close> is
    \<open>libxml2.xpathError\<close>.
  \<^item> \<open>serialize n\<close>: \<open>n.serialize('utf-8')\<close>, a \<open>str\<close> or \<open>None\<close>.
  \<^item> \<open>content n\<close>, \<open>getContent n\<close>: the attribute \<open>n.content\<close> and \<open>n.getContent()\<close>.
  \<^item> \<open>getRootElement d\<close>: \<open>None\<close> when libxml2 raises \<open>treeError\<close> (no root element).
  \<^item> \<open>xmlDoc_factory m r\<close>: the parse of the body of \<open>r\<close>; \<open>None\<close> is a parse error.
  \<^item> \<open>decode_ignore b\<close>: \<open>unicode(b, 'utf-8', errors='ignore')\<close> for a \<open>str\<close> \<open>b\<close>.
  \<^item> \<open>unicode1 v\<close>: \<open>unicode(v)\<close> for a value that is not a string.
  \<^item> \<open>unicode_to_str t\<close>: the helper of \<open>scrapy.utils.python\<close>.
  \<^item> \<open>textresponse_getlibxml2doc\<close>: whether a \<open>TextResponse\<close> has \<open>getlibxml2doc\<close>.
\<close>

subsection \<open>Selectors and selector lists\<close>

text \<open>
  The three classes; \<open>type(self)\<close> is a field of the model. Each class fixes its document
  factory in the class attribute \<open>xmlDoc_factory\<close>.
\<close>

datatype cls = XPathSelector | XmlXPathSelector | HtmlXPathSelector

fun factory_of :: "cls \<Rightarrow> mode" where
  "factory_of XPathSelector = HtmlMode"
| "factory_of XmlXPathSelector = XmlMode"
| "factory_of HtmlXPathSelector = HtmlMode"

text \<open>
  The attributes of a selector. \<open>__init__\<close> assigns \<open>doc\<close> and \<open>xmlNode\<close> in three of its
  four paths only: \<open>None\<close> in these two fields is an attribute that was never set, and
  reading it raises \<open>AttributeError\<close>. In \<open>expr\<close> and \<open>response\<close>, \<open>None\<close> is Python's.
\<close>

record selector =
  cls :: cls
  doc :: "Libxml2Document option"
  xmlNode :: "pyval option"
  expr :: "bytes option"
  response :: "source option"

text \<open>An element of a list is a selector or a raw value; a list is plain or a selector list.\<close>

datatype elem = Sel selector | Raw pyval

datatype pyseq = PyList "elem list" | XPathSelectorList "elem list"

fun items :: "pyseq \<Rightarrow> elem list" where
  "items (PyList es) = es"
| "items (XPathSelectorList es) = es"

fun is_XPathSelectorList :: "pyseq \<Rightarrow> bool" where
  "is_XPathSelectorList (XPathSelectorList es) = True"
| "is_XPathSelectorList (PyList es) = False"

subsection \<open>The world\<close>

record world =
  next_id :: nat
  parse_log :: "(nat \<times> mode) list"
  cache :: "nat \<times> mode \<Rightarrow> Libxml2Document option"
  context_node :: "nat \<Rightarrow> xmlobj option"
  namespaces :: "nat \<Rightarrow> (bytes \<times> bytes) list"

text \<open>
  \<^item> \<open>next_id\<close>: the identity the next new object gets;
  \<open>parse_log\<close>: one entry (response, factory) per call of a document factory;
  \<open>cache\<close>: the documents that responses keep, by response and factory;
  \<open>context_node\<close>, \<open>namespaces\<close>: the state of each document's XPath context.
\<close>

type_synonym 'a py = "world \<Rightarrow> (pyerror + 'a) \<times> world"

text \<open>A list comprehension whose body has effects: left to right, up to the first raise.\<close>

fun comprehension :: "('a \<Rightarrow> 'b py) \<Rightarrow> 'a list \<Rightarrow> ('b list) py" where
  "comprehension f [] w = (Inr [], w)"
| "comprehension f (a # as) w =
     (case f a w of
        (Inl e, w1) \<Rightarrow> (Inl e, w1)
      | (Inr b, w1) \<Rightarrow>
          (case comprehension f as w1 of
             (Inl e, w2) \<Rightarrow> (Inl e, w2)
           | (Inr bs, w2) \<Rightarrow> (Inr (b # bs), w2)))"

subsection \<open>Document handles\<close>

text \<open>
  Modelled from the spec: the class \<open>Libxml2Document\<close> of \<open>scrapy.xpath.extension\<close>, which
  is not among the sources. "build(source, mode) parses raw content from source ...;
  fails with a ParseError ...; returns an owned tree root plus evaluation context."
  Every call runs the parser once, and a new handle is a new object.
\<close>

definition Libxml2Document_new :: "externals \<Rightarrow> source \<Rightarrow> mode \<Rightarrow> Libxml2Document py" where
  "Libxml2Document_new env r m w =
     (let w1 = w\<lparr>parse_log := parse_log w @ [(sid r, m)]\<rparr> in
      case xmlDoc_factory env m r of
        None \<Rightarrow> (Inl ParseError, w1)
      | Some t \<Rightarrow> (Inr \<lparr>hid = next_id w1, xmlDoc = t\<rparr>, w1\<lparr>next_id := Suc (next_id w1)\<rparr>))"

text \<open>
  Modelled from the spec: the method \<open>getlibxml2doc\<close> of a response, which is not among
  the sources. "A source object may optionally expose: get or build and cache a
  parsed-tree handle for mode X."
\<close>

definition getlibxml2doc :: "externals \<Rightarrow> source \<Rightarrow> mode \<Rightarrow> Libxml2Document py" where
  "getlibxml2doc env r m w =
     (case cache w (sid r, m) of
        Some d \<Rightarrow> (Inr d, w)
      | None \<Rightarrow>
          (case Libxml2Document_new env r m w of
             (Inl e, w1) \<Rightarrow> (Inl e, w1)
           | (Inr d, w1) \<Rightarrow> (Inr d, w1\<lparr>cache := (cache w1)((sid r, m) := Some d)\<rparr>)))"

text \<open>
  Lines 33-37 of \<open>__init__\<close>: the cached version first; a response without the method
  raises \<open>AttributeError\<close>, and the handler builds a document of the selector's own.
\<close>

definition acquire :: "externals \<Rightarrow> source \<Rightarrow> mode \<Rightarrow> Libxml2Document py" where
  "acquire env r m w =
     (if has_getlibxml2doc r then getlibxml2doc env r m w
      else Libxml2Document_new env r m w)"

subsection \<open>XPathSelector.extract and __nonzero__\<close>

text \<open>
  \<open>unicode(v, 'utf-8', errors='ignore')\<close>: a \<open>str\<close> is decoded; a \<open>unicode\<close> ("decoding
  Unicode is not supported") and every value without the buffer interface raise
  \<open>TypeError\<close>.
\<close>

fun unicode_decode :: "externals \<Rightarrow> pyval \<Rightarrow> pyerror + unicode" where
  "unicode_decode env (PyStr b) = Inr (decode_ignore env b)"
| "unicode_decode env v = Inl TypeError"

fun is_basestring :: "pyval \<Rightarrow> bool" where
  "is_basestring (PyStr b) = True"
| "is_basestring (PyUnicode u) = True"
| "is_basestring v = False"

text \<open>\<open>hasattr(v, 'xpathEval')\<close> and \<open>hasattr(v, 'serialize')\<close>: the libxml2 wrappers have both.\<close>

fun has_xpathEval :: "pyval \<Rightarrow> bool" where
  "has_xpathEval (Node n) = True"
| "has_xpathEval v = False"

fun has_serialize :: "pyval \<Rightarrow> bool" where
  "has_serialize (Node n) = True"
| "has_serialize v = False"

text \<open>\<open>unicode(data, 'utf-8', errors='ignore') if data else u''\<close>, for \<open>data\<close> a \<open>str\<close> or \<open>None\<close>.\<close>

fun decode_data :: "externals \<Rightarrow> bytes option \<Rightarrow> unicode" where
  "decode_data env None = []"
| "decode_data env (Some b) = (if b \<noteq> [] then decode_ignore env b else [])"

text \<open>
  \<open>extract\<close> is \<open>extract_selector\<close> here. Lines 76-85: its branch for a value that has
  \<open>serialize\<close>.
\<close>

fun extract_node :: "externals \<Rightarrow> xmlobj \<Rightarrow> pyerror + unicode" where
  "extract_node env (XmlDoc a) =
     (case getRootElement env (XmlDoc a) of
        None \<Rightarrow> Inl TreeError
      | Some root \<Rightarrow> Inr (decode_data env (serialize env root)))"
| "extract_node env (XmlAttr a) = Inr (decode_ignore env (content env (XmlAttr a)))"
| "extract_node env (XmlNode a) = Inr (decode_data env (serialize env (XmlNode a)))"

definition extract_selector :: "externals \<Rightarrow> selector \<Rightarrow> pyerror + unicode" where
  "extract_selector env s =
     (case xmlNode s of
        None \<Rightarrow> Inl AttributeError
      | Some v \<Rightarrow>
          if is_basestring v then unicode_decode env v
          else (case v of
                  Node n \<Rightarrow> extract_node env n
                | _ \<Rightarrow>
                    (case unicode_decode env v of
                       Inl TypeError \<Rightarrow> Inr (unicode1 env v)
                     | r \<Rightarrow> r)))"

definition nonzero :: "externals \<Rightarrow> selector \<Rightarrow> pyerror + bool" where
  "nonzero env s = (case extract_selector env s of Inl e \<Rightarrow> Inl e | Inr u \<Rightarrow> Inr (u \<noteq> []))"

subsection \<open>XPathSelector.__init__\<close>

text \<open>
  \<open>TextResponse(url=None, body=unicode_to_str(text), encoding='utf-8')\<close>: a new response
  object.
\<close>

definition TextResponse :: "externals \<Rightarrow> pytext option \<Rightarrow> world \<Rightarrow> source \<times> world" where
  "TextResponse env t w =
     (\<lparr>sid = next_id w, body = unicode_to_str env t,
       has_getlibxml2doc = textresponse_getlibxml2doc env\<rparr>,
      w\<lparr>next_id := Suc (next_id w)\<rparr>)"

text \<open>The truth value of the argument \<open>text\<close>: \<open>None\<close> and the empty string are false.\<close>

fun text_truth :: "pytext option \<Rightarrow> bool" where
  "text_truth None = False"
| "text_truth (Some (Str b)) = (b \<noteq> [])"
| "text_truth (Some (Unicode u)) = (u \<noteq> [])"

text \<open>
  Lines 32-45, the paths taken when \<open>if parent:\<close> fails. A response that was passed is
  taken to be true, as any object is unless its class says otherwise; \<open>None\<close> is false.
  With neither a response nor a true text, \<open>doc\<close> and \<open>xmlNode\<close> are never assigned.
\<close>

definition init_root :: "externals \<Rightarrow> cls \<Rightarrow> source option \<Rightarrow> pytext option \<Rightarrow> bytes option \<Rightarrow> selector py" where
  "init_root env c response_arg text_arg expr_arg w =
     (case response_arg of
        Some r \<Rightarrow>
          (case acquire env r (factory_of c) w of
             (Inl e, w1) \<Rightarrow> (Inl e, w1)
           | (Inr d, w1) \<Rightarrow>
               (Inr \<lparr>cls = c, doc = Some d, xmlNode = Some (Node (xmlDoc d)),
                     expr = expr_arg, response = Some r\<rparr>, w1))
      | None \<Rightarrow>
          (if text_truth text_arg then
             (case TextResponse env text_arg w of
                (r, w1) \<Rightarrow>
                  (case Libxml2Document_new env r (factory_of c) w1 of
                     (Inl e, w2) \<Rightarrow> (Inl e, w2)
                   | (Inr d, w2) \<Rightarrow>
                       (Inr \<lparr>cls = c, doc = Some d, xmlNode = Some (Node (xmlDoc d)),
                             expr = expr_arg, response = Some r\<rparr>, w2)))
           else
             (Inr \<lparr>cls = c, doc = None, xmlNode = None, expr = expr_arg, response = None\<rparr>, w)))"

text \<open>
  \<open>__init__\<close>, with the class of the new object as \<open>c\<close>. \<open>if parent:\<close> asks the parent for
  its truth value: \<open>None\<close> is false, and a selector answers with its \<open>__nonzero__\<close>, which
  extracts its text (and can raise).
\<close>

definition init :: "externals \<Rightarrow> cls \<Rightarrow> source option \<Rightarrow> pytext option \<Rightarrow> pyval \<Rightarrow> selector option \<Rightarrow> bytes option \<Rightarrow> selector py" where
  "init env c response_arg text_arg node parent expr_arg w =
     (case parent of
        None \<Rightarrow> init_root env c response_arg text_arg expr_arg w
      | Some p \<Rightarrow>
          (case nonzero env p of
             Inl e \<Rightarrow> (Inl e, w)
           | Inr True \<Rightarrow>
               (case doc p of
                  None \<Rightarrow> (Inl AttributeError, w)
                | Some d \<Rightarrow>
                    (Inr \<lparr>cls = c, doc = Some d, xmlNode = Some node,
                          expr = expr_arg, response = response_arg\<rparr>, w))
           | Inr False \<Rightarrow> init_root env c response_arg text_arg expr_arg w))"

subsection \<open>XPathSelector.x\<close>

definition setContextNode :: "Libxml2Document \<Rightarrow> xmlobj \<Rightarrow> world \<Rightarrow> world" where
  "setContextNode d n w = w\<lparr>context_node := (context_node w)(hid d := Some n)\<rparr>"

definition xpathContext_xpathEval :: "externals \<Rightarrow> Libxml2Document \<Rightarrow> bytes \<Rightarrow> world \<Rightarrow> xpath_result option" where
  "xpathContext_xpathEval env d xpath w =
     xpathEval env (xmlDoc d) (context_node w (hid d)) (namespaces w (hid d)) xpath"

text \<open>
  The method \<open>x\<close> (also \<open>__call__\<close>). A list of nodes has \<open>__iter__\<close>; a \<open>str\<close>, a \<open>float\<close>
  and an \<open>int\<close> have none in Python 2 and are wrapped alone.
\<close>

definition XPathSelector_x :: "externals \<Rightarrow> selector \<Rightarrow> bytes \<Rightarrow> pyseq py" where
  "XPathSelector_x env s xpath w =
     (case xmlNode s of
        None \<Rightarrow> (Inl AttributeError, w)
      | Some v \<Rightarrow>
          (case v of
             Node n \<Rightarrow>
               (case doc s of
                  None \<Rightarrow> (Inl AttributeError, w)
                | Some d \<Rightarrow>
                    (let w1 = setContextNode d n w in
                     case xpathContext_xpathEval env d xpath w1 of
                       None \<Rightarrow> (Inl (ValueError (''Invalid XPath: '' @ xpath)), w1)
                     | Some (NodeList ns) \<Rightarrow>
                         (case comprehension
                                 (\<lambda>node. init env (cls s) (response s) None (Node node) (Some s) (Some xpath))
                                 ns w1 of
                            (Inl e, w2) \<Rightarrow> (Inl e, w2)
                          | (Inr cs, w2) \<Rightarrow> (Inr (XPathSelectorList (map Sel cs)), w2))
                     | Some (Scalar v) \<Rightarrow>
                         (case init env (cls s) (response s) None (scalar_value v) (Some s) (Some xpath) w1 of
                            (Inl e, w2) \<Rightarrow> (Inl e, w2)
                          | (Inr c, w2) \<Rightarrow> (Inr (XPathSelectorList [Sel c]), w2))))
           | _ \<Rightarrow> (Inr (XPathSelectorList []), w)))"

subsection \<open>extract_unquoted and register_namespace\<close>

text \<open>A list is true when it is not empty.\<close>

definition extract_unquoted :: "externals \<Rightarrow> selector \<Rightarrow> unicode py" where
  "extract_unquoted env s w =
     (case XPathSelector_x env s ''self::text()'' w of
        (Inl e, w1) \<Rightarrow> (Inl e, w1)
      | (Inr sl, w1) \<Rightarrow>
          (if items sl \<noteq> [] then
             (case xmlNode s of
                Some (Node n) \<Rightarrow> (Inr (decode_ignore env (getContent env n)), w1)
              | _ \<Rightarrow> (Inl AttributeError, w1))
           else (Inr [], w1)))"

definition register_namespace :: "selector \<Rightarrow> bytes \<Rightarrow> bytes \<Rightarrow> unit py" where
  "register_namespace s prefix uri w =
     (case doc s of
        None \<Rightarrow> (Inl AttributeError, w)
      | Some d \<Rightarrow>
          (Inr (), w\<lparr>namespaces := (namespaces w)(hid d := (prefix, uri) # namespaces w (hid d))\<rparr>))"

subsection \<open>XPathSelectorList\<close>

text \<open>
  \<open>list.__getslice__(self, i, j)\<close>: the bounds are clipped to the list, as CPython's
  \<open>list_slice\<close> does.
\<close>

definition list_getslice :: "'a list \<Rightarrow> int \<Rightarrow> int \<Rightarrow> 'a list" where
  "list_getslice xs i j =
     (let n = int (length xs);
          lo = (if i < 0 then 0 else if i > n then n else i);
          hi = (if j < lo then lo else if j > n then n else j)
      in take (nat (hi - lo)) (drop (nat lo) xs))"

text \<open>
  \<open>__getslice__\<close>: the class \<open>XPathSelectorList\<close> overrides it and wraps the slice; a plain
  list has the built-in one.
\<close>

fun getslice :: "pyseq \<Rightarrow> int \<Rightarrow> int \<Rightarrow> pyseq" where
  "getslice (XPathSelectorList es) i j = XPathSelectorList (list_getslice es i j)"
| "getslice (PyList es) i j = PyList (list_getslice es i j)"

text \<open>
  The expression \<open>sl[i:j]\<close>: Python 2 adds the length to a negative bound before it calls
  \<open>__getslice__\<close>.
\<close>

definition subscript_slice :: "pyseq \<Rightarrow> int \<Rightarrow> int \<Rightarrow> pyseq" where
  "subscript_slice sl i j =
     (let n = int (length (items sl)) in
      getslice sl (if i < 0 then i + n else i) (if j < 0 then j + n else j))"

text \<open>
  Modelled from the spec: the helper \<open>flatten\<close> of \<open>scrapy.utils.python\<close>, which is not
  among the sources, on the list of the lists that the queries returned. "Concatenates all
  resulting Selector Lists into one flat list, preserving per-element order, then overall
  element order."
\<close>

definition flatten :: "pyseq list \<Rightarrow> elem list" where
  "flatten rs = concat (map items rs)"

text \<open>\<open>x.x(xpath)\<close> for an element \<open>x\<close> of a list: a raw value has no method \<open>x\<close>.\<close>

fun element_x :: "externals \<Rightarrow> elem \<Rightarrow> bytes \<Rightarrow> pyseq py" where
  "element_x env (Sel s) xpath w = XPathSelector_x env s xpath w"
| "element_x env (Raw v) xpath w = (Inl AttributeError, w)"

text \<open>The method \<open>x\<close> of \<open>XPathSelectorList\<close>; a plain list has no such method.\<close>

fun XPathSelectorList_x :: "externals \<Rightarrow> pyseq \<Rightarrow> bytes \<Rightarrow> pyseq py" where
  "XPathSelectorList_x env (XPathSelectorList es) xpath w =
     (case comprehension (\<lambda>e. element_x env e xpath) es w of
        (Inl e, w1) \<Rightarrow> (Inl e, w1)
      | (Inr rs, w1) \<Rightarrow> (Inr (XPathSelectorList (flatten rs)), w1))"
| "XPathSelectorList_x env (PyList es) xpath w = (Inl AttributeError, w)"

subsection \<open>What the claims speak of\<close>

text \<open>
  Not from the source, but from the words of the spec. "Evaluating \<open>q\<close> relative to each
  result, flattened, preserving per-parent then overall order": the elements are queried
  one after the other, and the elements of each answer are appended in that order.
\<close>

fun query_each :: "externals \<Rightarrow> elem list \<Rightarrow> bytes \<Rightarrow> (elem list) py" where
  "query_each env [] q w = (Inr [], w)"
| "query_each env (r # rs) q w =
     (case element_x env r q w of
        (Inl e, w1) \<Rightarrow> (Inl e, w1)
      | (Inr out, w1) \<Rightarrow>
          (case query_each env rs q w1 of
             (Inl e, w2) \<Rightarrow> (Inl e, w2)
           | (Inr outs, w2) \<Rightarrow> (Inr (items out @ outs), w2)))"

text \<open>
  "A new Selector of the same concrete variant as self, with parent=self, expr=expr":
  the selector that shares the document \<open>d\<close> of its parent \<open>s\<close> and holds the value \<open>v\<close>.
\<close>

definition child :: "selector \<Rightarrow> Libxml2Document \<Rightarrow> bytes \<Rightarrow> pyval \<Rightarrow> selector" where
  "child s d q v =
     \<lparr>cls = cls s, doc = Some d, xmlNode = Some v, expr = Some q, response = response s\<rparr>"

fun is_result_of :: "selector \<Rightarrow> bytes \<Rightarrow> elem \<Rightarrow> bool" where
  "is_result_of s q (Sel c) = (cls c = cls s \<and> expr c = Some q)"
| "is_result_of s q (Raw v) = False"

text \<open>
  "N independent root-Selector constructions against the same source": the constructors
  \<open>c(response)\<close> for the classes \<open>c\<close> of a list, one after the other on one response. Each
  result is kept, a selector or the exception that the constructor raised. \<open>parses\<close> is
  the "counter on the parser invocation" for a response and a factory, and
  \<open>root_selector\<close> the selector on the root of the document \<open>d\<close>.
\<close>

fun construct_all :: "externals \<Rightarrow> source \<Rightarrow> cls list \<Rightarrow> world \<Rightarrow> (pyerror + selector) list \<times> world" where
  "construct_all env r [] w = ([], w)"
| "construct_all env r (c # cs) w =
     (case init env c (Some r) None PyNone None None w of
        (res, w1) \<Rightarrow> (case construct_all env r cs w1 of (rs, w2) \<Rightarrow> (res # rs, w2)))"

definition parses :: "world \<Rightarrow> source \<Rightarrow> mode \<Rightarrow> nat" where
  "parses w r m = count_list (parse_log w) (sid r, m)"

definition root_selector :: "cls \<Rightarrow> source \<Rightarrow> Libxml2Document \<Rightarrow> selector" where
  "root_selector c r d =
     \<lparr>cls = c, doc = Some d, xmlNode = Some (Node (xmlDoc d)), expr = None, response = Some r\<rparr>"

subsection \<open>The values that extract can render\<close>

text \<open>
  Not from the source: the node values of the amended claim about \<open>extract\<close>. A
  \<open>unicode\<close> cannot be decoded again, and a document needs a root element.
\<close>

fun extractable :: "externals \<Rightarrow> pyval \<Rightarrow> bool" where
  "extractable env (PyUnicode u) = False"
| "extractable env (Node (XmlDoc a)) = (getRootElement env (XmlDoc a) \<noteq> None)"
| "extractable env v = True"

subsection \<open>A small document\<close>

text \<open>
  The collaborators on one document, for evaluation. The document has the elements
  \<open>r\<close> (node 1), a first \<open>a\<close> (node 2) with the attribute \<open>href\<close> (node 3) of value
  \<open>http://x\<close>, a second \<open>a\<close> (node 4) whose \<open>href\<close> (node 5) is empty, and \<open>b\<close> (node 6)
  with the text \<open>hello\<close> (node 7); the document itself is node 0. Both factories parse
  every body but the body \<open><\<close>, which the XML factory refuses. The evaluator knows the
  expressions below; \<open>//a[\<close> is malformed.
\<close>

definition quoted :: "bytes \<Rightarrow> bytes" where
  "quoted b = [CHR 0x22] @ b @ [CHR 0x22]"

definition page :: bytes where
  "page = ''<r><a href='' @ quoted ''http://x'' @ ''/><a href='' @ quoted [] @
          ''/><b>hello</b></r>''"

definition example_xpathEval :: "xmlobj \<Rightarrow> xmlobj option \<Rightarrow> (bytes \<times> bytes) list \<Rightarrow> bytes \<Rightarrow> xpath_result option" where
  "example_xpathEval d c ns q =
     (if q = ''//a['' then None
      else if q = ''//a/@href'' then Some (NodeList [XmlAttr 3, XmlAttr 5])
      else if q = ''//b/text()'' then Some (NodeList [XmlNode 7])
      else if q = ''//b'' then Some (NodeList [XmlNode 6])
      else if q = ''self::text()'' then
        Some (NodeList (if c = Some (XmlNode 7) then [XmlNode 7] else []))
      else if q = ''..'' then
        Some (NodeList (if c = Some (XmlAttr 5) then [XmlNode 4]
                        else if c = Some (XmlAttr 3) then [XmlNode 2]
                        else if c = Some (XmlNode 7) then [XmlNode 6] else []))
      else if q = ''*'' then
        Some (NodeList (if c = Some (XmlDoc 0) then [XmlNode 1]
                        else if c = Some (XmlNode 1) then [XmlNode 2, XmlNode 4, XmlNode 6]
                        else []))
      else if q = ''@href'' then
        Some (NodeList (if c = Some (XmlNode 2) then [XmlAttr 3]
                        else if c = Some (XmlNode 4) then [XmlAttr 5] else []))
      else if q = ''count(//a)'' then Some (Scalar (XNumber (Finite 2 0)))
      else if q = ''string(//b)'' then Some (Scalar (XString ''hello''))
      else Some (NodeList []))"

definition example_serialize :: "xmlobj \<Rightarrow> bytes option" where
  "example_serialize n =
     (if n = XmlNode 1 then Some page
      else if n = XmlNode 2 then Some (''<a href='' @ quoted ''http://x'' @ ''/>'')
      else if n = XmlNode 4 then Some (''<a href='' @ quoted [] @ ''/>'')
      else if n = XmlNode 6 then Some ''<b>hello</b>''
      else if n = XmlNode 7 then Some ''hello''
      else if n = XmlAttr 3 then Some ('' href='' @ quoted ''http://x'')
      else None)"

definition example_content :: "xmlobj \<Rightarrow> bytes" where
  "example_content n =
     (if n = XmlAttr 3 then ''http://x''
      else if n = XmlNode 6 \<or> n = XmlNode 7 then ''hello''
      else [])"

definition ascii :: "bytes \<Rightarrow> unicode" where
  "ascii b = map of_char (filter (\<lambda>c. of_char c < (128::nat)) b)"

definition example_env :: externals where
  "example_env =
     \<lparr>xpathEval = example_xpathEval,
      serialize = example_serialize,
      content = example_content,
      getContent = example_content,
      getRootElement = (\<lambda>d. if d = XmlDoc 0 then Some (XmlNode 1) else None),
      xmlDoc_factory = (\<lambda>m r. if m = XmlMode \<and> body r = ''<'' then None else Some (XmlDoc 0)),
      decode_ignore = ascii,
      unicode1 = (\<lambda>v. case v of PyInt i \<Rightarrow> (if i = 0 then ascii ''0'' else ascii ''1'')
                          | PyNone \<Rightarrow> ascii ''None''
                          | _ \<Rightarrow> ascii ''2.0''),
      unicode_to_str = (\<lambda>t. case t of Some (Str b) \<Rightarrow> b | Some (Unicode u) \<Rightarrow> map char_of u
                              | None \<Rightarrow> []),
      textresponse_getlibxml2doc = False\<rparr>"

definition empty_world :: world where
  "empty_world =
     \<lparr>next_id = 0, parse_log = [], cache = (\<lambda>k. None), context_node = (\<lambda>k. None),
      namespaces = (\<lambda>k. [])\<rparr>"

text \<open>A response with the document as its body, with or without \<open>getlibxml2doc\<close>.\<close>

definition example_response :: "bool \<Rightarrow> source" where
  "example_response cached = \<lparr>sid = 100, body = page, has_getlibxml2doc = cached\<rparr>"

text \<open>
  The selectors of the document that the evaluations below meet: the root selector that
  \<open>HtmlXPathSelector(text=page)\<close> builds in the empty world, and a selector that a query
  \<open>q\<close> on the root returns for the value \<open>v\<close>.
\<close>

definition text_response :: source where
  "text_response = \<lparr>sid = 0, body = page, has_getlibxml2doc = False\<rparr>"

definition example_doc :: Libxml2Document where
  "example_doc = \<lparr>hid = 1, xmlDoc = XmlDoc 0\<rparr>"

definition example_root :: selector where
  "example_root =
     \<lparr>cls = HtmlXPathSelector, doc = Some example_doc, xmlNode = Some (Node (XmlDoc 0)),
      expr = None, response = Some text_response\<rparr>"

definition root_world :: world where
  "root_world = empty_world\<lparr>next_id := 2, parse_log := [(0, HtmlMode)]\<rparr>"

definition result_of :: "bytes \<Rightarrow> pyval \<Rightarrow> selector" where
  "result_of q v =
     \<lparr>cls = HtmlXPathSelector, doc = Some example_doc, xmlNode = Some v,
      expr = Some q, response = Some text_response\<rparr>"

section \<open>Properties\<close>

subsection \<open>Constructor and query, step by step\<close>

lemma init_true_parent:
  "nonzero env p = Inr True \<Longrightarrow> doc p = Some d \<Longrightarrow>
   init env c r t v (Some p) e w =
     (Inr \<lparr>cls = c, doc = Some d, xmlNode = Some v, expr = e, response = r\<rparr>, w)"
  by (simp add: init_def)

lemma comprehension_pure:
  "(\<And>a w. f a w = (Inr (g a), w)) \<Longrightarrow> comprehension f as w = (Inr (map g as), w)"
  by (induction as) simp_all

lemma x_true_parent:
  assumes "xmlNode s = Some (Node n)" and "doc s = Some d" and "nonzero env s = Inr True"
    and "xpathEval env (xmlDoc d) (Some n) (namespaces w (hid d)) q = Some (NodeList ns)"
  shows "XPathSelector_x env s q w =
     (Inr (XPathSelectorList (map (\<lambda>node. Sel (child s d q (Node node))) ns)),
      setContextNode d n w)"
proof -
  have ev: "xpathContext_xpathEval env d q (setContextNode d n w) = Some (NodeList ns)"
    using assms(4) by (simp add: xpathContext_xpathEval_def setContextNode_def)
  have "comprehension (\<lambda>node. init env (cls s) (response s) None (Node node) (Some s) (Some q)) ns
          (setContextNode d n w) =
        (Inr (map (\<lambda>node. child s d q (Node node)) ns), setContextNode d n w)"
    by (rule comprehension_pure) (simp add: init_true_parent [OF assms(3) assms(2)] child_def)
  then show ?thesis
    using assms(1,2) ev by (simp add: XPathSelector_x_def)
qed

lemma x_true_parent_scalar:
  assumes "xmlNode s = Some (Node n)" and "doc s = Some d" and "nonzero env s = Inr True"
    and "xpathEval env (xmlDoc d) (Some n) (namespaces w (hid d)) q = Some (Scalar v)"
  shows "XPathSelector_x env s q w =
     (Inr (XPathSelectorList [Sel (child s d q (scalar_value v))]), setContextNode d n w)"
proof -
  have ev: "xpathContext_xpathEval env d q (setContextNode d n w) = Some (Scalar v)"
    using assms(4) by (simp add: xpathContext_xpathEval_def setContextNode_def)
  show ?thesis
    using assms(1,2) ev
    by (simp add: XPathSelector_x_def init_true_parent [OF assms(3) assms(2)] child_def)
qed

text \<open>\<open>__init__\<close> keeps the class and the expression on every path.\<close>

lemma init_root_cls_expr:
  "init_root env c r t e w = (Inr s, w') \<Longrightarrow> cls s = c \<and> expr s = e"
  by (auto simp: init_root_def split: option.splits prod.splits sum.splits if_splits)

lemma init_cls_expr:
  "init env c r t v p e w = (Inr s, w') \<Longrightarrow> cls s = c \<and> expr s = e"
  by (auto simp: init_def split: option.splits sum.splits bool.splits dest: init_root_cls_expr)

lemma comprehension_all:
  "comprehension f as w = (Inr bs, w') \<Longrightarrow> (\<And>a w b w'. f a w = (Inr b, w') \<Longrightarrow> P b) \<Longrightarrow>
   list_all P bs"
  by (induction as arbitrary: w bs) (auto split: prod.splits sum.splits)

lemma x_cls_expr:
  assumes "XPathSelector_x env s q w = (Inr sl, w')"
  shows "is_XPathSelectorList sl \<and> list_all (is_result_of s q) (items sl)"
proof (cases "xmlNode s")
  case None
  with assms show ?thesis by (simp add: XPathSelector_x_def)
next
  case (Some v)
  show ?thesis
  proof (cases v)
    case (Node n)
    show ?thesis
    proof (cases "doc s")
      case None
      with assms Some Node show ?thesis by (simp add: XPathSelector_x_def)
    next
      case d: (Some d)
      let ?w1 = "setContextNode d n w"
      show ?thesis
      proof (cases "xpathContext_xpathEval env d q ?w1")
        case None
        with assms Some Node d show ?thesis by (simp add: XPathSelector_x_def)
      next
        case r: (Some r)
        show ?thesis
        proof (cases r)
          case (NodeList ns)
          let ?f = "\<lambda>node. init env (cls s) (response s) None (Node node) (Some s) (Some q)"
          from assms Some Node d r NodeList obtain cs where
            c: "comprehension ?f ns ?w1 = (Inr cs, w')" and sl: "sl = XPathSelectorList (map Sel cs)"
            by (auto simp: XPathSelector_x_def split: prod.splits sum.splits)
          have "list_all (\<lambda>c. cls c = cls s \<and> expr c = Some q) cs"
            by (rule comprehension_all [OF c]) (auto dest: init_cls_expr)
          then show ?thesis using sl by (simp add: list_all_iff)
        next
          case (Scalar x)
          with assms Some Node d r show ?thesis
            by (auto simp: XPathSelector_x_def split: prod.splits sum.splits dest: init_cls_expr)
        qed
      qed
    qed
  qed (use assms Some in \<open>auto simp: XPathSelector_x_def\<close>)
qed

lemma acquire_succeeds:
  "xmlDoc_factory env m r \<noteq> None \<Longrightarrow> \<exists>d w'. acquire env r m w = (Inr d, w')"
  by (auto simp: acquire_def getlibxml2doc_def Libxml2Document_new_def Let_def
      split: option.splits)

lemma init_root_succeeds:
  "(\<And>r. rs = Some r \<Longrightarrow> xmlDoc_factory env (factory_of c) r \<noteq> None) \<Longrightarrow>
   \<exists>s w'. init_root env c rs None e w = (Inr s, w')"
proof (cases rs)
  case None
  then show ?thesis by (simp add: init_root_def)
next
  case (Some r)
  assume "\<And>r. rs = Some r \<Longrightarrow> xmlDoc_factory env (factory_of c) r \<noteq> None"
  with Some have "xmlDoc_factory env (factory_of c) r \<noteq> None" by simp
  from acquire_succeeds [OF this] obtain d w' where "acquire env r (factory_of c) w = (Inr d, w')"
    by blast
  with Some show ?thesis by (simp add: init_root_def)
qed

lemma init_child_succeeds:
  assumes "nonzero env s = Inr b" and "doc s = Some d"
    and "b \<or> (\<forall>r. response s = Some r \<longrightarrow> xmlDoc_factory env (factory_of (cls s)) r \<noteq> None)"
  shows "\<exists>c w'. init env (cls s) (response s) None v (Some s) e w = (Inr c, w')"
proof (cases b)
  case True
  with assms show ?thesis by (simp add: init_def)
next
  case False
  with assms(3) have "\<And>r. response s = Some r \<Longrightarrow> xmlDoc_factory env (factory_of (cls s)) r \<noteq> None"
    by simp
  from init_root_succeeds [OF this] obtain c w'
    where "init_root env (cls s) (response s) None e w = (Inr c, w')" by blast
  with False assms(1) show ?thesis by (simp add: init_def)
qed

lemma comprehension_succeeds:
  "(\<And>a w. \<exists>b w'. f a w = (Inr b, w')) \<Longrightarrow>
   \<exists>bs w'. comprehension f as w = (Inr bs, w') \<and> length bs = length as"
proof (induction as arbitrary: w)
  case Nil
  then show ?case by simp
next
  case (Cons a as)
  from Cons.prems obtain b w1 where 1: "f a w = (Inr b, w1)" by blast
  from Cons.IH [OF Cons.prems] obtain bs w2
    where 2: "comprehension f as w1 = (Inr bs, w2)" "length bs = length as" by blast
  from 1 2 show ?case by simp
qed

subsection \<open>Evaluations on the small document\<close>

lemma example_env_fields:
  "xpathEval example_env = example_xpathEval"
  "serialize example_env = example_serialize"
  "content example_env = example_content"
  "getContent example_env = example_content"
  "decode_ignore example_env = ascii"
  "textresponse_getlibxml2doc example_env = False"
  "example_env\<lparr>serialize := example_serialize\<rparr> = example_env"
  by (simp_all add: example_env_def)

lemma page_nonempty: "page \<noteq> []"
  by (simp add: page_def)

lemma init_text_example:
  "init example_env HtmlXPathSelector None (Some (Str page)) PyNone None None empty_world
     = (Inr example_root, root_world)"
  by (simp add: init_def init_root_def TextResponse_def Libxml2Document_new_def example_env_def
      empty_world_def example_root_def example_doc_def text_response_def root_world_def
      page_nonempty)

lemma extract_root: "extract_selector example_env example_root = Inr (ascii page)"
  by (simp add: extract_selector_def example_root_def example_env_def example_serialize_def
      page_nonempty)

lemma extract_href_empty:
  "extract_selector example_env (result_of q (Node (XmlAttr 5))) = Inr []"
  by (simp add: extract_selector_def result_of_def example_env_def example_content_def ascii_def)

lemma extract_href:
  "extract_selector example_env (result_of q (Node (XmlAttr 3))) = Inr (ascii ''http://x'')"
  by (simp add: extract_selector_def result_of_def example_env_def example_content_def)

lemma nonzero_root: "nonzero example_env example_root = Inr True"
  by (simp add: nonzero_def extract_root ascii_def page_def)

lemma example_root_fields:
  "doc example_root = Some example_doc" "xmlNode example_root = Some (Node (XmlDoc 0))"
  "cls example_root = HtmlXPathSelector" "response example_root = Some text_response"
  by (simp_all add: example_root_def)

lemma x_root_href:
  "XPathSelector_x example_env example_root ''//a/@href'' root_world =
     (Inr (XPathSelectorList [Sel (result_of ''//a/@href'' (Node (XmlAttr 3))),
                              Sel (result_of ''//a/@href'' (Node (XmlAttr 5)))]),
      setContextNode example_doc (XmlDoc 0) root_world)"
proof -
  have ev: "xpathContext_xpathEval example_env example_doc ''//a/@href''
              (setContextNode example_doc (XmlDoc 0) root_world) =
            Some (NodeList [XmlAttr 3, XmlAttr 5])"
    by (simp add: xpathContext_xpathEval_def example_env_fields example_xpathEval_def)
  show ?thesis
    by (simp add: XPathSelector_x_def example_root_fields ev init_def nonzero_root result_of_def)
qed

lemma child_of_root: "child example_root example_doc q v = result_of q v"
  by (simp add: child_def result_of_def example_root_def)

lemma result_of_fields:
  "doc (result_of q v) = Some example_doc" "xmlNode (result_of q v) = Some v"
  "cls (result_of q v) = HtmlXPathSelector" "response (result_of q v) = Some text_response"
  "child (result_of q v) example_doc q' v' = result_of q' v'"
  by (simp_all add: result_of_def child_def)

lemma extract_b: "extract_selector example_env (result_of q (Node (XmlNode 6))) = Inr (ascii ''<b>hello</b>'')"
  by (simp add: extract_selector_def result_of_def example_env_fields example_serialize_def)

lemma extract_b_text: "extract_selector example_env (result_of q (Node (XmlNode 7))) = Inr (ascii ''hello'')"
  by (simp add: extract_selector_def result_of_def example_env_fields example_serialize_def)

lemma nonzero_b_text: "nonzero example_env (result_of q (Node (XmlNode 7))) = Inr True"
  by (simp add: nonzero_def extract_b_text ascii_def)

lemma x_root_b_text:
  "XPathSelector_x example_env example_root ''//b/text()'' root_world =
     (Inr (XPathSelectorList [Sel (result_of ''//b/text()'' (Node (XmlNode 7)))]),
      setContextNode example_doc (XmlDoc 0) root_world)"
  using x_true_parent [where env = example_env and s = example_root and d = example_doc
      and n = "XmlDoc 0" and w = root_world and q = "''//b/text()''" and ns = "[XmlNode 7]"]
  by (simp add: example_root_fields nonzero_root example_env_fields example_xpathEval_def
      child_of_root)

lemma x_b_text_parent:
  "XPathSelector_x example_env (result_of q (Node (XmlNode 7))) ''..'' w =
     (Inr (XPathSelectorList [Sel (result_of ''..'' (Node (XmlNode 6)))]),
      setContextNode example_doc (XmlNode 7) w)"
  using x_true_parent [where env = example_env and s = "result_of q (Node (XmlNode 7))"
      and d = example_doc and n = "XmlNode 7" and w = w and q = "''..''" and ns = "[XmlNode 6]"]
  by (simp add: result_of_fields nonzero_b_text example_env_fields example_xpathEval_def)

lemma setContextNode_twice:
  "setContextNode d a (setContextNode d b w) = setContextNode d a w"
  by (simp add: setContextNode_def)

lemma nonzero_elements:
  "nonzero example_env (result_of q (Node (XmlNode 1))) = Inr True"
  "nonzero example_env (result_of q (Node (XmlNode 2))) = Inr True"
  "nonzero example_env (result_of q (Node (XmlNode 4))) = Inr True"
  "nonzero example_env (result_of q (Node (XmlNode 6))) = Inr True"
  by (simp_all add: nonzero_def extract_selector_def result_of_def example_env_fields
      example_serialize_def ascii_def page_def quoted_def del: One_nat_def)

lemma example_doc_fields: "hid example_doc = 1" "xmlDoc example_doc = XmlDoc 0"
  by (simp_all add: example_doc_def)

lemma x_example:
  assumes "nonzero example_env (result_of q (Node n)) = Inr True"
    and "example_xpathEval (XmlDoc 0) (Some n) (namespaces w 1) q' = Some (NodeList ns)"
  shows "XPathSelector_x example_env (result_of q (Node n)) q' w =
     (Inr (XPathSelectorList (map (\<lambda>m. Sel (result_of q' (Node m))) ns)),
      setContextNode example_doc n w)"
  using x_true_parent [where env = example_env and s = "result_of q (Node n)"
      and d = example_doc and n = n and w = w and q = q' and ns = ns] assms
  by (simp add: result_of_fields example_env_fields example_doc_fields del: One_nat_def)

lemma x_root_star:
  "XPathSelector_x example_env example_root ''*'' w =
     (Inr (XPathSelectorList [Sel (result_of ''*'' (Node (XmlNode 1)))]),
      setContextNode example_doc (XmlDoc 0) w)"
  using x_true_parent [where env = example_env and s = example_root and d = example_doc
      and n = "XmlDoc 0" and w = w and q = "''*''" and ns = "[XmlNode 1]"]
  by (simp add: example_root_fields nonzero_root example_env_fields example_xpathEval_def
      child_of_root del: One_nat_def)

lemma x_star:
  "XPathSelector_x example_env (result_of q (Node (XmlNode 6))) ''*'' w =
     (Inr (XPathSelectorList []), setContextNode example_doc (XmlNode 6) w)"
  "XPathSelector_x example_env (result_of q (Node (XmlNode 1))) ''*'' w =
     (Inr (XPathSelectorList [Sel (result_of ''*'' (Node (XmlNode 2))),
                              Sel (result_of ''*'' (Node (XmlNode 4))),
                              Sel (result_of ''*'' (Node (XmlNode 6)))]),
      setContextNode example_doc (XmlNode 1) w)"
  using x_example [where q = q and n = "XmlNode 6" and w = w and q' = "''*''" and ns = "[]"]
    x_example [where q = q and n = "XmlNode 1" and w = w and q' = "''*''"
      and ns = "[XmlNode 2, XmlNode 4, XmlNode 6]"]
  by (simp_all add: nonzero_elements example_xpathEval_def del: One_nat_def)

lemma x_href:
  "XPathSelector_x example_env (result_of q (Node (XmlNode 2))) ''@href'' w =
     (Inr (XPathSelectorList [Sel (result_of ''@href'' (Node (XmlAttr 3)))]),
      setContextNode example_doc (XmlNode 2) w)"
  "XPathSelector_x example_env (result_of q (Node (XmlNode 4))) ''@href'' w =
     (Inr (XPathSelectorList [Sel (result_of ''@href'' (Node (XmlAttr 5)))]),
      setContextNode example_doc (XmlNode 4) w)"
  "XPathSelector_x example_env (result_of q (Node (XmlNode 6))) ''@href'' w =
     (Inr (XPathSelectorList []), setContextNode example_doc (XmlNode 6) w)"
  "XPathSelector_x example_env (result_of q (Node (XmlNode 1))) ''@href'' w =
     (Inr (XPathSelectorList []), setContextNode example_doc (XmlNode 1) w)"
  using x_example [where q = q and n = "XmlNode 2" and w = w and q' = "''@href''" and ns = "[XmlAttr 3]"]
    x_example [where q = q and n = "XmlNode 4" and w = w and q' = "''@href''" and ns = "[XmlAttr 5]"]
    x_example [where q = q and n = "XmlNode 6" and w = w and q' = "''@href''" and ns = "[]"]
    x_example [where q = q and n = "XmlNode 1" and w = w and q' = "''@href''" and ns = "[]"]
  by (simp_all add: nonzero_elements example_xpathEval_def del: One_nat_def)

subsection \<open>Slices of Python lists\<close>

lemma take_drop_nth:
  "hi \<le> length xs \<Longrightarrow> take (hi - lo) (drop lo xs) = map ((!) xs) [lo..<hi]"
  by (rule nth_equalityI) auto

lemma list_getslice_nth:
  "\<exists>lo hi. hi \<le> length xs \<and> list_getslice xs i j = map ((!) xs) [lo..<hi]"
proof -
  define n where "n = int (length xs)"
  define lo where "lo = (if i < 0 then 0 else if i > n then n else i)"
  define hi where "hi = (if j < lo then lo else if j > n then n else j)"
  have b: "0 \<le> lo" "lo \<le> hi" "hi \<le> n"
    by (auto simp: lo_def hi_def n_def)
  then have le: "nat hi \<le> length xs" by (simp add: n_def)
  have "list_getslice xs i j = take (nat (hi - lo)) (drop (nat lo) xs)"
    by (simp add: list_getslice_def Let_def lo_def hi_def n_def)
  also have "nat (hi - lo) = nat hi - nat lo" using b by simp
  finally have "list_getslice xs i j = map ((!) xs) [nat lo..<nat hi]"
    using take_drop_nth [OF le] by simp
  with le show ?thesis by blast
qed

lemma list_getslice_nat:
  "m \<le> n \<Longrightarrow> n \<le> length xs \<Longrightarrow>
   list_getslice xs (int m) (int n) = map ((!) xs) [m..<n]"
  using take_drop_nth [of n xs m] by (simp add: list_getslice_def Let_def nat_diff_distrib')

subsection \<open>Truth value of a selector\<close>

text \<open>
  C8. The truth value of a selector is false exactly when \<open>extract()\<close> returns the empty
  string, and true exactly when it returns a string that is not empty (when \<open>extract()\<close>
  raises, so does the truth test).
\<close>

theorem nonzero_iff_extract_empty:
  "(nonzero env s = Inr False) = (extract_selector env s = Inr []) \<and>
   (nonzero env s = Inr True) = (\<exists>u. extract_selector env s = Inr u \<and> u \<noteq> [])"
  by (auto simp: nonzero_def split: sum.splits)

theorem nonzero_iff_extract_empty_witness:
  "nonzero example_env (result_of ''//a/@href'' (Node (XmlAttr 5))) = Inr False \<and>
   nonzero example_env (result_of ''//a/@href'' (Node (XmlAttr 3))) = Inr True"
  using nonzero_iff_extract_empty [of example_env "result_of ''//a/@href'' (Node (XmlAttr 5))"]
        nonzero_iff_extract_empty [of example_env "result_of ''//a/@href'' (Node (XmlAttr 3))"]
  by (simp add: extract_href_empty extract_href ascii_def)

subsection \<open>Queries on a value that cannot be queried\<close>

text \<open>
  C2. A selector whose node has no \<open>xpathEval\<close> (a string, a number, \<open>None\<close>) answers every
  query with the empty selector list; it raises nothing and leaves the world as it was.
\<close>

theorem x_without_xpathEval:
  "xmlNode s = Some v \<Longrightarrow> \<not> has_xpathEval v \<Longrightarrow>
   XPathSelector_x env s xpath w = (Inr (XPathSelectorList []), w)"
  by (cases v) (simp_all add: XPathSelector_x_def)

theorem x_without_xpathEval_witness:
  "XPathSelector_x example_env (result_of ''string(//b)'' (PyStr ''hello'')) ''//a[''
     root_world = (Inr (XPathSelectorList []), root_world)"
  using x_without_xpathEval [of "result_of ''string(//b)'' (PyStr ''hello'')" "PyStr ''hello''"
      example_env "''//a[''" root_world]
  by (simp add: result_of_def)

subsection \<open>Malformed queries\<close>

text \<open>
  C1. When the node of a selector can be queried and the evaluator rejects the expression
  (\<open>libxml2.xpathError\<close>), \<open>x\<close> raises \<open>ValueError\<close> with the expression in its message; the
  result is an exception, not a list.
\<close>

theorem x_invalid_xpath:
  "xmlNode s = Some (Node n) \<Longrightarrow> doc s = Some d \<Longrightarrow>
   xpathEval env (xmlDoc d) (Some n) (namespaces w (hid d)) xpath = None \<Longrightarrow>
   XPathSelector_x env s xpath w =
     (Inl (ValueError (''Invalid XPath: '' @ xpath)), setContextNode d n w)"
  by (simp add: XPathSelector_x_def xpathContext_xpathEval_def setContextNode_def)

theorem x_invalid_xpath_witness:
  "XPathSelector_x example_env example_root ''//a['' root_world =
     (Inl (ValueError ''Invalid XPath: //a[''), setContextNode example_doc (XmlDoc 0) root_world)"
  using x_invalid_xpath [of example_root "XmlDoc 0" example_doc example_env root_world "''//a[''"]
  by (simp add: example_root_def example_doc_def example_env_def example_xpathEval_def)

subsection \<open>Extraction of an attribute\<close>

text \<open>
  C6. For a selector on an attribute node, \<open>extract()\<close> returns the decoded \<open>content\<close> of the
  attribute, whatever \<open>serialize\<close> would return (any function \<open>f\<close> in its place gives the
  same result). On the small document, \<open>//a/@href\<close> on the root returns the two attributes
  in order, and the first extracts to \<open>http://x\<close>.
\<close>

theorem extract_attribute:
  "xmlNode s = Some (Node (XmlAttr a)) \<Longrightarrow>
   extract_selector (env\<lparr>serialize := f\<rparr>) s = Inr (decode_ignore env (content env (XmlAttr a)))"
  by (simp add: extract_selector_def)

theorem extract_attribute_witness:
  "XPathSelector_x example_env example_root ''//a/@href'' root_world =
     (Inr (XPathSelectorList [Sel (result_of ''//a/@href'' (Node (XmlAttr 3))),
                              Sel (result_of ''//a/@href'' (Node (XmlAttr 5)))]),
      setContextNode example_doc (XmlDoc 0) root_world) \<and>
   extract_selector example_env (result_of ''//a/@href'' (Node (XmlAttr 3))) =
     Inr (map of_char ''http://x'')"
  using extract_attribute [where s = "result_of ''//a/@href'' (Node (XmlAttr 3))" and a = 3
      and env = example_env and f = "serialize example_env"] x_root_href
  by (simp add: result_of_def example_env_fields example_content_def ascii_def)

subsection \<open>Where extract returns and where it raises\<close>

text \<open>
  C10, as stated, fails: \<open>HtmlXPathSelector(text='')\<close> takes none of the paths of
  \<open>__init__\<close> that assign \<open>xmlNode\<close>, and \<open>extract()\<close> on the new selector raises
  \<open>AttributeError\<close>.
\<close>

theorem extract_raises_without_node:
  "init example_env HtmlXPathSelector None (Some (Str [])) PyNone None None empty_world =
     (Inr \<lparr>cls = HtmlXPathSelector, doc = None, xmlNode = None, expr = None, response = None\<rparr>,
      empty_world) \<and>
   extract_selector example_env
     \<lparr>cls = HtmlXPathSelector, doc = None, xmlNode = None, expr = None, response = None\<rparr> =
     Inl AttributeError"
  by (simp add: init_def init_root_def extract_selector_def)

text \<open>
  The other two ways to an exception: a \<open>unicode\<close> node passes the \<open>basestring\<close> test and
  cannot be decoded, and a document without a root element has nothing to serialize.
\<close>

lemma extract_raises_otherwise:
  "(xmlNode s = Some (PyUnicode u) \<longrightarrow> extract_selector env s = Inl TypeError) \<and>
   (xmlNode s = Some (Node (XmlDoc a)) \<longrightarrow> getRootElement env (XmlDoc a) = None \<longrightarrow>
      extract_selector env s = Inl TreeError)"
  by (simp add: extract_selector_def)

text \<open>
  C10, amended. For a selector whose node is assigned and is a \<open>str\<close>, a document with a
  root element, an attribute, any other node, or a value that is not a string,
  \<open>extract()\<close> returns a \<open>unicode\<close> and raises nothing: the decoded string, the decoded
  serialization of the root element or of the node (the empty string when the
  serialization is \<open>None\<close> or empty), the decoded content of the attribute, or the plain
  conversion \<open>unicode(v)\<close> of a value that is not a string.
\<close>

theorem extract_total_on_nodes:
  "(xmlNode s = Some v \<longrightarrow> extractable env v \<longrightarrow> (\<exists>u. extract_selector env s = Inr u)) \<and>
   (xmlNode s = Some (PyStr b) \<longrightarrow> extract_selector env s = Inr (decode_ignore env b)) \<and>
   (xmlNode s = Some (Node (XmlDoc a)) \<longrightarrow> getRootElement env (XmlDoc a) = Some root \<longrightarrow>
      extract_selector env s = Inr (decode_data env (serialize env root))) \<and>
   (xmlNode s = Some (Node (XmlAttr a)) \<longrightarrow>
      extract_selector env s = Inr (decode_ignore env (content env (XmlAttr a)))) \<and>
   (xmlNode s = Some (Node (XmlNode a)) \<longrightarrow>
      extract_selector env s = Inr (decode_data env (serialize env (XmlNode a)))) \<and>
   decode_data env None = [] \<and> decode_data env (Some []) = [] \<and>
   (xmlNode s = Some v \<longrightarrow> \<not> is_basestring v \<longrightarrow> \<not> has_serialize v \<longrightarrow>
      extract_selector env s = Inr (unicode1 env v))"
proof -
  have 1: "xmlNode s = Some v \<longrightarrow> extractable env v \<longrightarrow> (\<exists>u. extract_selector env s = Inr u)"
    by (cases "(env, v)" rule: extractable.cases) (auto simp: extract_selector_def)
  have 2: "xmlNode s = Some v \<longrightarrow> \<not> is_basestring v \<longrightarrow> \<not> has_serialize v \<longrightarrow>
      extract_selector env s = Inr (unicode1 env v)"
    by (cases v) (simp_all add: extract_selector_def)
  show ?thesis using 1 2 by (simp add: extract_selector_def)
qed

theorem extract_total_on_nodes_witness:
  "extract_selector example_env (result_of ''count(//a)'' (PyFloat (Finite 2 0))) =
     Inr (map of_char ''2.0'') \<and>
   extract_selector example_env (result_of ''//b'' (Node (XmlNode 6))) =
     Inr (map of_char ''<b>hello</b>'') \<and>
   extract_selector example_env (result_of ''//a'' (Node (XmlNode 9))) = Inr []"
  using extract_total_on_nodes [where s = "result_of ''count(//a)'' (PyFloat (Finite 2 0))"
      and v = "PyFloat (Finite 2 0)" and env = example_env]
    extract_total_on_nodes [where s = "result_of ''//b'' (Node (XmlNode 6))" and a = 6
      and env = example_env]
    extract_total_on_nodes [where s = "result_of ''//a'' (Node (XmlNode 9))" and a = 9
      and env = example_env]
  by (simp add: result_of_def example_env_fields example_serialize_def ascii_def)
    (simp add: example_env_def ascii_def)

subsection \<open>Slices of a selector list\<close>

text \<open>
  C9. A slice \<open>sl[i:j]\<close> of a selector list is a selector list again, not a plain list; its
  elements are a run \<open>es[lo], ..., es[hi - 1]\<close> of the elements of the list, in their
  order, and for bounds \<open>m \<le> n\<close> within the list they are exactly \<open>es[m], ..., es[n - 1]\<close>.
\<close>

theorem getslice_selector_list:
  "is_XPathSelectorList (getslice (XPathSelectorList es) i j) \<and>
   is_XPathSelectorList (subscript_slice (XPathSelectorList es) i j) \<and>
   (\<exists>lo hi. hi \<le> length es \<and>
      items (subscript_slice (XPathSelectorList es) i j) = map ((!) es) [lo..<hi]) \<and>
   (m \<le> n \<longrightarrow> n \<le> length es \<longrightarrow>
      subscript_slice (XPathSelectorList es) (int m) (int n) =
        XPathSelectorList (map ((!) es) [m..<n]))"
  using list_getslice_nth [of es "if i < 0 then i + int (length es) else i"
      "if j < 0 then j + int (length es) else j"]
  by (simp add: subscript_slice_def Let_def list_getslice_nat)

theorem getslice_selector_list_witness:
  "subscript_slice (XPathSelectorList [Raw (PyInt 0), Raw (PyInt 1), Raw (PyInt 2), Raw (PyInt 3)]) 1 3
     = XPathSelectorList [Raw (PyInt 1), Raw (PyInt 2)] \<and>
   subscript_slice (XPathSelectorList [Raw (PyInt 0), Raw (PyInt 1), Raw (PyInt 2), Raw (PyInt 3)]) (- 1) 9
     = XPathSelectorList [Raw (PyInt 3)]"
  using getslice_selector_list [of "[Raw (PyInt 0), Raw (PyInt 1), Raw (PyInt 2), Raw (PyInt 3)]" 1 3 1 3]
  by (simp add: subscript_slice_def list_getslice_def upt_rec)

subsection \<open>Queries on a selector list\<close>

lemma query_each_comprehension:
  "query_each env es q w =
     (case comprehension (\<lambda>e. element_x env e q) es w of
        (Inl e, w1) \<Rightarrow> (Inl e, w1)
      | (Inr rs, w1) \<Rightarrow> (Inr (flatten rs), w1))"
  by (induction es arbitrary: w) (auto simp: flatten_def split: prod.splits sum.splits)

lemma list_x_query_each:
  "XPathSelectorList_x env (XPathSelectorList es) q w =
     (case query_each env es q w of
        (Inl e, w1) \<Rightarrow> (Inl e, w1)
      | (Inr out, w1) \<Rightarrow> (Inr (XPathSelectorList out), w1))"
  by (simp add: query_each_comprehension split: prod.splits sum.splits)

lemma list_x_returns_selector_list:
  "XPathSelectorList_x env sl q w = (Inr rs, w1) \<Longrightarrow> rs = XPathSelectorList (items rs)"
  by (cases sl) (auto split: prod.splits sum.splits)

lemma query_each_append:
  "query_each env (xs @ ys) q w =
     (case query_each env xs q w of
        (Inl e, w1) \<Rightarrow> (Inl e, w1)
      | (Inr a, w1) \<Rightarrow>
          (case query_each env ys q w1 of
             (Inl e, w2) \<Rightarrow> (Inl e, w2)
           | (Inr b, w2) \<Rightarrow> (Inr (a @ b), w2)))"
  by (induction xs arbitrary: w) (auto split: prod.splits sum.splits)

text \<open>
  C4. The method \<open>x\<close> of a selector list queries the elements one after the other and
  appends the elements of their answers in that order (the comprehension and \<open>flatten\<close>
  of the source compute \<open>query_each\<close>); so \<open>sl.x(q1).x(q2)\<close> is the concatenation of
  \<open>r.x(q2)\<close> over the results \<open>r\<close> of \<open>sl.x(q1)\<close>, in their order. An exception of an
  element ends the query with that exception.
\<close>

theorem list_x_concatenates:
  "XPathSelectorList_x env (XPathSelectorList es) q1 w =
     (case query_each env es q1 w of
        (Inl e, w1) \<Rightarrow> (Inl e, w1)
      | (Inr out, w1) \<Rightarrow> (Inr (XPathSelectorList out), w1)) \<and>
   (XPathSelectorList_x env sl q1 w = (Inr rs, w1) \<longrightarrow>
      XPathSelectorList_x env rs q2 w1 =
        (case query_each env (items rs) q2 w1 of
           (Inl e, w2) \<Rightarrow> (Inl e, w2)
         | (Inr out, w2) \<Rightarrow> (Inr (XPathSelectorList out), w2)))"
proof (intro conjI impI)
  show "XPathSelectorList_x env (XPathSelectorList es) q1 w =
     (case query_each env es q1 w of
        (Inl e, w1) \<Rightarrow> (Inl e, w1)
      | (Inr out, w1) \<Rightarrow> (Inr (XPathSelectorList out), w1))"
    by (rule list_x_query_each)
next
  assume "XPathSelectorList_x env sl q1 w = (Inr rs, w1)"
  then have "rs = XPathSelectorList (items rs)" by (rule list_x_returns_selector_list)
  then show "XPathSelectorList_x env rs q2 w1 =
        (case query_each env (items rs) q2 w1 of
           (Inl e, w2) \<Rightarrow> (Inl e, w2)
         | (Inr out, w2) \<Rightarrow> (Inr (XPathSelectorList out), w2))"
    using list_x_query_each [of env "items rs" q2 w1] by simp
qed

text \<open>
  On the small document: the list of \<open>b\<close>, \<open>r\<close> and the root selector, asked for \<open>*\<close>,
  answers with nothing for \<open>b\<close>, then the three children of \<open>r\<close>, then \<open>r\<close> itself; that
  list, asked for \<open>@href\<close>, answers with the attribute of the first \<open>a\<close>, then that of the
  second, and nothing for \<open>b\<close> and \<open>r\<close>.
\<close>

theorem list_x_concatenates_witness:
  "XPathSelectorList_x example_env
     (XPathSelectorList [Sel (result_of ''//b'' (Node (XmlNode 6))),
                         Sel (result_of ''*'' (Node (XmlNode 1))),
                         Sel example_root]) ''*'' root_world =
     (Inr (XPathSelectorList [Sel (result_of ''*'' (Node (XmlNode 2))),
                              Sel (result_of ''*'' (Node (XmlNode 4))),
                              Sel (result_of ''*'' (Node (XmlNode 6))),
                              Sel (result_of ''*'' (Node (XmlNode 1)))]),
      setContextNode example_doc (XmlDoc 0) root_world) \<and>
   XPathSelectorList_x example_env
     (XPathSelectorList [Sel (result_of ''*'' (Node (XmlNode 2))),
                         Sel (result_of ''*'' (Node (XmlNode 4))),
                         Sel (result_of ''*'' (Node (XmlNode 6))),
                         Sel (result_of ''*'' (Node (XmlNode 1)))]) ''@href''
     (setContextNode example_doc (XmlDoc 0) root_world) =
     (Inr (XPathSelectorList [Sel (result_of ''@href'' (Node (XmlAttr 3))),
                              Sel (result_of ''@href'' (Node (XmlAttr 5)))]),
      setContextNode example_doc (XmlNode 1) root_world)"
  using list_x_concatenates [where env = example_env
      and es = "[Sel (result_of ''//b'' (Node (XmlNode 6))),
                 Sel (result_of ''*'' (Node (XmlNode 1))), Sel example_root]"
      and ?q1.0 = "''*''" and w = root_world
      and sl = "XPathSelectorList [Sel (result_of ''//b'' (Node (XmlNode 6))),
                 Sel (result_of ''*'' (Node (XmlNode 1))), Sel example_root]"
      and rs = "XPathSelectorList [Sel (result_of ''*'' (Node (XmlNode 2))),
                              Sel (result_of ''*'' (Node (XmlNode 4))),
                              Sel (result_of ''*'' (Node (XmlNode 6))),
                              Sel (result_of ''*'' (Node (XmlNode 1)))]"
      and ?w1.0 = "setContextNode example_doc (XmlDoc 0) root_world" and ?q2.0 = "''@href''"]
  by (simp add: x_root_star x_star x_href setContextNode_twice del: One_nat_def)

subsection \<open>extract_unquoted\<close>

text \<open>
  C7, as stated for every selector, fails: \<open>HtmlXPathSelector(text='')\<close> has no
  \<open>xmlNode\<close>, and \<open>extract_unquoted()\<close> on it raises \<open>AttributeError\<close> (at the
  \<open>hasattr\<close> of \<open>x\<close>) where the claim has the empty string.
\<close>

theorem extract_unquoted_raises_without_node:
  "init example_env HtmlXPathSelector None (Some (Str [])) PyNone None None empty_world =
     (Inr \<lparr>cls = HtmlXPathSelector, doc = None, xmlNode = None, expr = None, response = None\<rparr>,
      empty_world) \<and>
   extract_unquoted example_env
     \<lparr>cls = HtmlXPathSelector, doc = None, xmlNode = None, expr = None, response = None\<rparr>
     empty_world = (Inl AttributeError, empty_world)"
  by (simp add: init_def init_root_def extract_unquoted_def XPathSelector_x_def)

text \<open>
  C7, amended: for a selector whose node is assigned. \<open>extract_unquoted()\<close> asks the
  evaluator for \<open>self::text()\<close> on the node. A node that cannot be queried, and a node for
  which the answer is empty (the node is no text node), give the empty string. When the
  answer is not empty (the node is a text node) the result is the decoded \<open>getContent()\<close>
  of the node. The wrapping of the answer runs the constructor, which takes the truth
  value \<open>b\<close> of the selector itself: the selector must be extractable, and when it is
  false (its text is empty) its response must parse.
\<close>

theorem extract_unquoted_text_node:
  "(xmlNode s = Some v \<longrightarrow> \<not> has_xpathEval v \<longrightarrow> extract_unquoted env s w = (Inr [], w)) \<and>
   (xmlNode s = Some (Node n) \<longrightarrow> doc s = Some d \<longrightarrow>
    xpathEval env (xmlDoc d) (Some n) (namespaces w (hid d)) ''self::text()'' = Some (NodeList []) \<longrightarrow>
      extract_unquoted env s w = (Inr [], setContextNode d n w)) \<and>
   (xmlNode s = Some (Node n) \<longrightarrow> doc s = Some d \<longrightarrow>
    xpathEval env (xmlDoc d) (Some n) (namespaces w (hid d)) ''self::text()'' =
      Some (NodeList (t # ts)) \<longrightarrow>
    nonzero env s = Inr b \<longrightarrow>
    b \<or> (\<forall>r. response s = Some r \<longrightarrow> xmlDoc_factory env (factory_of (cls s)) r \<noteq> None) \<longrightarrow>
      fst (extract_unquoted env s w) = Inr (decode_ignore env (getContent env n)))"
proof (intro conjI impI)
  assume "xmlNode s = Some v" "\<not> has_xpathEval v"
  then show "extract_unquoted env s w = (Inr [], w)"
    by (cases v) (simp_all add: extract_unquoted_def XPathSelector_x_def)
next
  assume "xmlNode s = Some (Node n)" "doc s = Some d"
    "xpathEval env (xmlDoc d) (Some n) (namespaces w (hid d)) ''self::text()'' = Some (NodeList [])"
  then show "extract_unquoted env s w = (Inr [], setContextNode d n w)"
    by (simp add: extract_unquoted_def XPathSelector_x_def xpathContext_xpathEval_def
        setContextNode_def)
next
  assume a: "xmlNode s = Some (Node n)" "doc s = Some d"
    and ev: "xpathEval env (xmlDoc d) (Some n) (namespaces w (hid d)) ''self::text()'' =
      Some (NodeList (t # ts))"
    and nz: "nonzero env s = Inr b"
    and ok: "b \<or> (\<forall>r. response s = Some r \<longrightarrow> xmlDoc_factory env (factory_of (cls s)) r \<noteq> None)"
  let ?w1 = "setContextNode d n w"
  let ?f = "\<lambda>node. init env (cls s) (response s) None (Node node) (Some s) (Some ''self::text()'')"
  have ev': "xpathContext_xpathEval env d ''self::text()'' ?w1 = Some (NodeList (t # ts))"
    using ev by (simp add: xpathContext_xpathEval_def setContextNode_def)
  have "\<exists>bs w'. comprehension ?f (t # ts) ?w1 = (Inr bs, w') \<and> length bs = length (t # ts)"
    by (rule comprehension_succeeds) (rule init_child_succeeds [OF nz a(2) ok])
  then obtain bs w' where c: "comprehension ?f (t # ts) ?w1 = (Inr bs, w')"
    and len: "length bs = length (t # ts)" by blast
  from len have ne: "bs \<noteq> []" by auto
  from c have "XPathSelector_x env s ''self::text()'' w = (Inr (XPathSelectorList (map Sel bs)), w')"
    using a ev' by (simp add: XPathSelector_x_def del: comprehension.simps)
  then show "fst (extract_unquoted env s w) = Inr (decode_ignore env (getContent env n))"
    using a ne by (simp add: extract_unquoted_def)
qed

theorem extract_unquoted_text_node_witness:
  "fst (extract_unquoted example_env (result_of ''//b/text()'' (Node (XmlNode 7))) root_world) =
     Inr (map of_char ''hello'') \<and>
   extract_unquoted example_env (result_of ''//b'' (Node (XmlNode 6))) root_world =
     (Inr [], setContextNode example_doc (XmlNode 6) root_world) \<and>
   extract_unquoted example_env (result_of ''string(//b)'' (PyStr ''hello'')) root_world =
     (Inr [], root_world)"
  using extract_unquoted_text_node [where env = example_env
      and s = "result_of ''//b/text()'' (Node (XmlNode 7))" and n = "XmlNode 7"
      and d = example_doc and w = root_world and t = "XmlNode 7" and ts = "[]" and b = True]
    extract_unquoted_text_node [where env = example_env
      and s = "result_of ''//b'' (Node (XmlNode 6))" and n = "XmlNode 6"
      and d = example_doc and w = root_world]
    extract_unquoted_text_node [where env = example_env
      and s = "result_of ''string(//b)'' (PyStr ''hello'')" and v = "PyStr ''hello''"
      and w = root_world]
  by (simp add: result_of_fields nonzero_b_text example_env_fields example_xpathEval_def
      example_content_def ascii_def)

subsection \<open>One document per response and factory\<close>

text \<open>
  The three ways of a construction from a response that has \<open>getlibxml2doc\<close>: the document
  is cached; it is not and the factory fails; it is not and the factory succeeds.
\<close>

lemma init_hit:
  "has_getlibxml2doc r \<Longrightarrow> cache w (sid r, factory_of c) = Some d \<Longrightarrow>
   init env c (Some r) None PyNone None None w = (Inr (root_selector c r d), w)"
  by (simp add: init_def init_root_def acquire_def getlibxml2doc_def root_selector_def)

lemma init_miss_fail:
  "has_getlibxml2doc r \<Longrightarrow> cache w (sid r, factory_of c) = None \<Longrightarrow>
   xmlDoc_factory env (factory_of c) r = None \<Longrightarrow>
   init env c (Some r) None PyNone None None w =
     (Inl ParseError, w\<lparr>parse_log := parse_log w @ [(sid r, factory_of c)]\<rparr>)"
  by (simp add: init_def init_root_def acquire_def getlibxml2doc_def Libxml2Document_new_def)

lemma init_miss_ok:
  "has_getlibxml2doc r \<Longrightarrow> cache w (sid r, factory_of c) = None \<Longrightarrow>
   xmlDoc_factory env (factory_of c) r = Some t \<Longrightarrow>
   init env c (Some r) None PyNone None None w =
     (Inr (root_selector c r \<lparr>hid = next_id w, xmlDoc = t\<rparr>),
      w\<lparr>parse_log := parse_log w @ [(sid r, factory_of c)], next_id := Suc (next_id w),
        cache := (cache w)((sid r, factory_of c) := Some \<lparr>hid = next_id w, xmlDoc = t\<rparr>)\<rparr>)"
  by (simp add: init_def init_root_def acquire_def getlibxml2doc_def Libxml2Document_new_def
      root_selector_def)

text \<open>A construction with the other factory leaves the cache entry and the count alone.\<close>

lemma init_other_mode:
  assumes "has_getlibxml2doc r" and "factory_of c \<noteq> m"
    and "init env c (Some r) None PyNone None None w = (res, w1)"
  shows "cache w1 (sid r, m) = cache w (sid r, m) \<and> parses w1 r m = parses w r m"
proof (cases "cache w (sid r, factory_of c)")
  case (Some d)
  with assms init_hit [OF assms(1) Some, of env] show ?thesis by simp
next
  case None
  show ?thesis
  proof (cases "xmlDoc_factory env (factory_of c) r")
    case n: None
    with assms init_miss_fail [OF assms(1) None n] show ?thesis by (auto simp: parses_def)
  next
    case (Some t)
    with assms init_miss_ok [OF assms(1) None Some] show ?thesis by (auto simp: parses_def)
  qed
qed

lemma construct_all_length: "construct_all env r cs w = (rs, w') \<Longrightarrow> length rs = length cs"
  by (induction cs arbitrary: w rs) (auto split: prod.splits)

lemma construct_all_hit:
  assumes "has_getlibxml2doc r"
  shows "cache w (sid r, m) = Some d \<Longrightarrow> construct_all env r cs w = (rs, w') \<Longrightarrow>
    parses w' r m = parses w r m \<and> cache w' (sid r, m) = Some d \<and>
    (\<forall>j<length cs. factory_of (cs ! j) = m \<longrightarrow> rs ! j = Inr (root_selector (cs ! j) r d))"
proof (induction cs arbitrary: w rs)
  case Nil
  then show ?case by simp
next
  case (Cons c cs)
  obtain res w1 where i: "init env c (Some r) None PyNone None None w = (res, w1)"
    by (cases "init env c (Some r) None PyNone None None w")
  obtain rs1 where r1: "construct_all env r cs w1 = (rs1, w')" and rs: "rs = res # rs1"
    using Cons.prems(2) i by (auto split: prod.splits)
  show ?case
  proof (cases "factory_of c = m")
    case True
    with Cons.prems(1) i init_hit [OF assms, of w c d env] have e: "res = Inr (root_selector c r d)" "w1 = w"
      by auto
    from Cons.IH [OF _ r1] Cons.prems(1) e have
      "parses w' r m = parses w r m \<and> cache w' (sid r, m) = Some d \<and>
       (\<forall>j<length cs. factory_of (cs ! j) = m \<longrightarrow> rs1 ! j = Inr (root_selector (cs ! j) r d))"
      by simp
    with e rs show ?thesis by (auto simp: nth_Cons split: nat.splits)
  next
    case False
    from init_other_mode [OF assms False i] Cons.prems(1)
    have k: "cache w1 (sid r, m) = Some d" "parses w1 r m = parses w r m" by simp_all
    from Cons.IH [OF k(1) r1] k(2) have
      "parses w' r m = parses w r m \<and> cache w' (sid r, m) = Some d \<and>
       (\<forall>j<length cs. factory_of (cs ! j) = m \<longrightarrow> rs1 ! j = Inr (root_selector (cs ! j) r d))"
      by simp
    with False rs show ?thesis by (auto simp: nth_Cons split: nat.splits)
  qed
qed

lemma construct_all_miss_fail:
  assumes "has_getlibxml2doc r" and "xmlDoc_factory env m r = None"
  shows "cache w (sid r, m) = None \<Longrightarrow> construct_all env r cs w = (rs, w') \<Longrightarrow>
    (\<forall>j<length cs. factory_of (cs ! j) = m \<longrightarrow> rs ! j = Inl ParseError)"
proof (induction cs arbitrary: w rs)
  case Nil
  then show ?case by simp
next
  case (Cons c cs)
  obtain res w1 where i: "init env c (Some r) None PyNone None None w = (res, w1)"
    by (cases "init env c (Some r) None PyNone None None w")
  obtain rs1 where r1: "construct_all env r cs w1 = (rs1, w')" and rs: "rs = res # rs1"
    using Cons.prems(2) i by (auto split: prod.splits)
  show ?case
  proof (cases "factory_of c = m")
    case True
    with Cons.prems(1) assms(2) i init_miss_fail [OF assms(1), of w c env]
    have e: "res = Inl ParseError" "cache w1 (sid r, m) = None" by auto
    from Cons.IH [OF e(2) r1] e rs show ?thesis by (auto simp: nth_Cons split: nat.splits)
  next
    case False
    from init_other_mode [OF assms(1) False i] Cons.prems(1)
    have k: "cache w1 (sid r, m) = None" by simp
    from Cons.IH [OF k r1] False rs show ?thesis by (auto simp: nth_Cons split: nat.splits)
  qed
qed

lemma construct_all_miss_ok:
  assumes "has_getlibxml2doc r" and "xmlDoc_factory env m r = Some t"
  shows "cache w (sid r, m) = None \<Longrightarrow> construct_all env r cs w = (rs, w') \<Longrightarrow>
    parses w' r m \<le> parses w r m + 1 \<and>
    (\<exists>d. \<forall>j<length cs. factory_of (cs ! j) = m \<longrightarrow> rs ! j = Inr (root_selector (cs ! j) r d))"
proof (induction cs arbitrary: w rs)
  case Nil
  then show ?case by simp
next
  case (Cons c cs)
  obtain res w1 where i: "init env c (Some r) None PyNone None None w = (res, w1)"
    by (cases "init env c (Some r) None PyNone None None w")
  obtain rs1 where r1: "construct_all env r cs w1 = (rs1, w')" and rs: "rs = res # rs1"
    using Cons.prems(2) i by (auto split: prod.splits)
  show ?case
  proof (cases "factory_of c = m")
    case True
    let ?d = "\<lparr>hid = next_id w, xmlDoc = t\<rparr>"
    from True Cons.prems(1) assms(2) i init_miss_ok [OF assms(1), of w c env t]
    have e: "res = Inr (root_selector c r ?d)" "cache w1 (sid r, m) = Some ?d"
      "parses w1 r m = parses w r m + 1"
      by (auto simp: parses_def)
    from construct_all_hit [OF assms(1) e(2) r1] e(3) have
      "parses w' r m = parses w r m + 1"
      "\<forall>j<length cs. factory_of (cs ! j) = m \<longrightarrow> rs1 ! j = Inr (root_selector (cs ! j) r ?d)"
      by simp_all
    with e(1) rs have "parses w' r m \<le> parses w r m + 1 \<and>
      (\<forall>j<length (c # cs). factory_of ((c # cs) ! j) = m \<longrightarrow>
         rs ! j = Inr (root_selector ((c # cs) ! j) r ?d))"
      by (auto simp: nth_Cons split: nat.splits)
    then show ?thesis by blast
  next
    case False
    from init_other_mode [OF assms(1) False i] Cons.prems(1)
    have k: "cache w1 (sid r, m) = None" "parses w1 r m = parses w r m" by simp_all
    from Cons.IH [OF k(1) r1] k(2) obtain d where
      "parses w' r m \<le> parses w r m + 1"
      "\<forall>j<length cs. factory_of (cs ! j) = m \<longrightarrow> rs1 ! j = Inr (root_selector (cs ! j) r d)"
      by auto
    with False rs have "parses w' r m \<le> parses w r m + 1 \<and>
      (\<forall>j<length (c # cs). factory_of ((c # cs) ! j) = m \<longrightarrow>
         rs ! j = Inr (root_selector ((c # cs) ! j) r d))"
      by (auto simp: nth_Cons split: nat.splits)
    then show ?thesis by blast
  qed
qed

lemma construct_all_example:
  "construct_all example_env (example_response True)
     [HtmlXPathSelector, XmlXPathSelector, XPathSelector, HtmlXPathSelector] empty_world =
   ([Inr (root_selector HtmlXPathSelector (example_response True) \<lparr>hid = 0, xmlDoc = XmlDoc 0\<rparr>),
     Inr (root_selector XmlXPathSelector (example_response True) \<lparr>hid = 1, xmlDoc = XmlDoc 0\<rparr>),
     Inr (root_selector XPathSelector (example_response True) \<lparr>hid = 0, xmlDoc = XmlDoc 0\<rparr>),
     Inr (root_selector HtmlXPathSelector (example_response True) \<lparr>hid = 0, xmlDoc = XmlDoc 0\<rparr>)],
    empty_world\<lparr>next_id := 2, parse_log := [(100, HtmlMode), (100, XmlMode)],
      cache := ((\<lambda>k. None)((100, HtmlMode) := Some \<lparr>hid = 0, xmlDoc = XmlDoc 0\<rparr>))
                 ((100, XmlMode) := Some \<lparr>hid = 1, xmlDoc = XmlDoc 0\<rparr>)\<rparr>)"
  by (simp add: init_def init_root_def acquire_def getlibxml2doc_def Libxml2Document_new_def
      example_env_def example_response_def empty_world_def root_selector_def page_def)

text \<open>
  C3. Root selectors are constructed from one response that has \<open>getlibxml2doc\<close>, in any
  number and with any classes. If one of them, of factory \<open>m\<close>, was built, then the factory
  \<open>m\<close> ran at most once on the response during all the constructions, every construction
  of factory \<open>m\<close> built a selector, and all these selectors hold the same
  \<open>Libxml2Document\<close> object. (\<open>XPathSelector\<close> and \<open>HtmlXPathSelector\<close> have the same factory.)
\<close>

theorem one_document_per_source_and_mode:
  assumes "has_getlibxml2doc r" and "construct_all env r cs w = (rs, w')"
    and "i < length cs" and "factory_of (cs ! i) = m" and "rs ! i = Inr s"
  shows "parses w' r m \<le> parses w r m + 1 \<and>
    (\<exists>d. doc s = Some d \<and>
       (\<forall>j<length cs. factory_of (cs ! j) = m \<longrightarrow> (\<exists>s'. rs ! j = Inr s' \<and> doc s' = Some d)))"
proof (cases "cache w (sid r, m)")
  case (Some d)
  from construct_all_hit [OF assms(1) Some assms(2)] assms(3,4,5) show ?thesis
    by (auto simp: root_selector_def)
next
  case None
  show ?thesis
  proof (cases "xmlDoc_factory env m r")
    case n: None
    from construct_all_miss_fail [OF assms(1) n None assms(2)] assms(3,4,5) show ?thesis by auto
  next
    case (Some t)
    from construct_all_miss_ok [OF assms(1) Some None assms(2)] assms(3,4,5) show ?thesis
      by (auto simp: root_selector_def)
  qed
qed

theorem one_document_per_source_and_mode_witness:
  "parses (snd (construct_all example_env (example_response True)
       [HtmlXPathSelector, XmlXPathSelector, XPathSelector, HtmlXPathSelector] empty_world))
     (example_response True) HtmlMode = 1 \<and>
   map (map_sum id doc) (fst (construct_all example_env (example_response True)
       [HtmlXPathSelector, XmlXPathSelector, XPathSelector, HtmlXPathSelector] empty_world)) =
     [Inr (Some \<lparr>hid = 0, xmlDoc = XmlDoc 0\<rparr>), Inr (Some \<lparr>hid = 1, xmlDoc = XmlDoc 0\<rparr>),
      Inr (Some \<lparr>hid = 0, xmlDoc = XmlDoc 0\<rparr>), Inr (Some \<lparr>hid = 0, xmlDoc = XmlDoc 0\<rparr>)]"
  using one_document_per_source_and_mode [where env = example_env and r = "example_response True"
      and cs = "[HtmlXPathSelector, XmlXPathSelector, XPathSelector, HtmlXPathSelector]"
      and w = empty_world and i = 0 and m = HtmlMode, OF _ construct_all_example]
  unfolding construct_all_example
  by (simp add: parses_def root_selector_def example_response_def empty_world_def)

subsection \<open>The selectors that a query returns\<close>

text \<open>
  What holds of the results of \<open>x\<close>: they always have the class of the selector and record
  the expression (\<open>x_cls_expr\<close>); when the selector is true they are its children, on its
  document and on the nodes of the answer, in order (\<open>x_true_parent\<close>,
  \<open>x_true_parent_scalar\<close>).

  C5, at a selector that is false. The second \<open>href\<close> of the small document is empty, so
  its selector extracts to the empty string and is false. The query \<open>..\<close> on it selects the
  element \<open>a\<close> (node 4), and \<open>x\<close> calls the constructor with \<open>parent=self\<close>; there
  \<open>if parent:\<close> fails, and the constructor goes on as for a root selector: it parses the
  response again and wraps the document node. The result is not the child on node 4.
\<close>

theorem x_of_false_parent:
  "nonzero example_env (result_of ''//a/@href'' (Node (XmlAttr 5))) = Inr False \<and>
   XPathSelector_x example_env (result_of ''//a/@href'' (Node (XmlAttr 5))) ''..''
     (setContextNode example_doc (XmlDoc 0) root_world) =
     (Inr (XPathSelectorList
        [Sel \<lparr>cls = HtmlXPathSelector, doc = Some \<lparr>hid = 2, xmlDoc = XmlDoc 0\<rparr>,
              xmlNode = Some (Node (XmlDoc 0)), expr = Some ''..'',
              response = Some text_response\<rparr>]),
      (setContextNode example_doc (XmlAttr 5) root_world)
        \<lparr>next_id := 3, parse_log := [(0, HtmlMode), (0, HtmlMode)]\<rparr>) \<and>
   Sel \<lparr>cls = HtmlXPathSelector, doc = Some \<lparr>hid = 2, xmlDoc = XmlDoc 0\<rparr>,
        xmlNode = Some (Node (XmlDoc 0)), expr = Some ''..'', response = Some text_response\<rparr> \<noteq>
   Sel (child (result_of ''//a/@href'' (Node (XmlAttr 5))) example_doc ''..'' (Node (XmlNode 4)))"
proof -
  let ?h5 = "result_of ''//a/@href'' (Node (XmlAttr 5))"
  let ?w1 = "setContextNode example_doc (XmlAttr 5) (setContextNode example_doc (XmlDoc 0) root_world)"
  have nz: "nonzero example_env ?h5 = Inr False"
    by (simp add: nonzero_def extract_href_empty)
  have ev: "xpathContext_xpathEval example_env example_doc ''..'' ?w1 = Some (NodeList [XmlNode 4])"
    by (simp add: xpathContext_xpathEval_def setContextNode_def example_env_fields
        example_xpathEval_def)
  have ir: "init_root example_env HtmlXPathSelector (Some text_response) None (Some ''..'') ?w1 =
      (Inr \<lparr>cls = HtmlXPathSelector, doc = Some \<lparr>hid = 2, xmlDoc = XmlDoc 0\<rparr>,
             xmlNode = Some (Node (XmlDoc 0)), expr = Some ''..'',
             response = Some text_response\<rparr>,
       (setContextNode example_doc (XmlAttr 5) root_world)
         \<lparr>next_id := 3, parse_log := [(0, HtmlMode), (0, HtmlMode)]\<rparr>)"
    by (simp add: init_root_def acquire_def Libxml2Document_new_def text_response_def
        example_env_def setContextNode_def root_world_def empty_world_def)
  have i: "init example_env HtmlXPathSelector (Some text_response) None (Node (XmlNode 4))
      (Some ?h5) (Some ''..'') ?w1 =
      init_root example_env HtmlXPathSelector (Some text_response) None (Some ''..'') ?w1"
    by (simp add: init_def nz)
  have x: "XPathSelector_x example_env ?h5 ''..'' (setContextNode example_doc (XmlDoc 0) root_world) =
     (Inr (XPathSelectorList
        [Sel \<lparr>cls = HtmlXPathSelector, doc = Some \<lparr>hid = 2, xmlDoc = XmlDoc 0\<rparr>,
              xmlNode = Some (Node (XmlDoc 0)), expr = Some ''..'',
              response = Some text_response\<rparr>]),
      (setContextNode example_doc (XmlAttr 5) root_world)
        \<lparr>next_id := 3, parse_log := [(0, HtmlMode), (0, HtmlMode)]\<rparr>)"
    by (simp add: XPathSelector_x_def result_of_fields ev i ir)
  have ne: "Sel \<lparr>cls = HtmlXPathSelector, doc = Some \<lparr>hid = 2, xmlDoc = XmlDoc 0\<rparr>,
        xmlNode = Some (Node (XmlDoc 0)), expr = Some ''..'', response = Some text_response\<rparr> \<noteq>
   Sel (child ?h5 example_doc ''..'' (Node (XmlNode 4)))"
    by (simp add: child_def)
  from nz x ne show ?thesis by blast
qed

end
